theory Spec2Isabelle
  imports Complex_Main
begin

section \<open>Colors (hanson/models/color.py)\<close>

text \<open>
  Python exceptions are values of one error type. A function that can raise returns
  \<open>py_error + 'a\<close>, with \<open>Inl\<close> for the exception.
\<close>

datatype py_error = AssertionError | ValueError | IndexError | OverflowError

text \<open>
  \<^verbatim>\<open>class Color(NamedTuple)\<close> with the fields \<^verbatim>\<open>r\<close>, \<^verbatim>\<open>g\<close>, \<^verbatim>\<open>b\<close>. The fields are
  Python integers, hence unbounded: the range 0..255 is a comment in the source, not
  something the type enforces.
\<close>

record Color =
  col_r :: int
  col_g :: int
  col_b :: int

subsection \<open>Formatting as HTML hex\<close>

definition hex_digit :: "nat \<Rightarrow> char" where
  "hex_digit n = ''0123456789abcdef'' ! n"

text \<open>The lowercase hexadecimal digits of a natural number, most significant first.\<close>

fun hex_of_nat :: "nat \<Rightarrow> string" where
  "hex_of_nat n =
     (if n < 16 then [hex_digit n]
      else hex_of_nat (n div 16) @ [hex_digit (n mod 16)])"

declare hex_of_nat.simps [simp del]

definition zero_fill :: "nat \<Rightarrow> string \<Rightarrow> string" where
  "zero_fill w s = replicate (w - length s) (CHR ''0'') @ s"

text \<open>
  The format specification \<^verbatim>\<open>02x\<close> of an f-string: lowercase hexadecimal, filled with
  zeros to a width of at least 2. A negative number has a minus sign, which counts
  towards the width, and the zeros go between the sign and the digits.
\<close>

definition format_02x :: "int \<Rightarrow> string" where
  "format_02x v =
     (if v < 0 then CHR ''-'' # zero_fill 1 (hex_of_nat (nat (- v)))
      else zero_fill 2 (hex_of_nat (nat v)))"

definition to_html_hex :: "Color \<Rightarrow> string" where
  "to_html_hex c = CHR ''#'' # format_02x (col_r c) @ format_02x (col_g c) @ format_02x (col_b c)"

subsection \<open>Parsing HTML hex\<close>

definition hex_value :: "char \<Rightarrow> nat option" where
  "hex_value c =
     (let k = of_char c :: nat in
      if 48 \<le> k \<and> k \<le> 57 then Some (k - 48)
      else if 97 \<le> k \<and> k \<le> 102 then Some (k - 87)
      else if 65 \<le> k \<and> k \<le> 70 then Some (k - 55)
      else None)"

text \<open>ASCII whitespace: space, tab, line feed, vertical tab, form feed, carriage return.\<close>

definition is_space :: "char \<Rightarrow> bool" where
  "is_space c = (let k = of_char c :: nat in k = 32 \<or> (9 \<le> k \<and> k \<le> 13))"

text \<open>
  \<^verbatim>\<open>bytes.fromhex\<close>: whitespace is skipped before each byte; a byte is two hexadecimal
  digits of either case; anything else raises ValueError.
\<close>

fun fromhex :: "string \<Rightarrow> py_error + nat list" where
  "fromhex [] = Inr []"
| "fromhex [c] = (if is_space c then Inr [] else Inl ValueError)"
| "fromhex (c # d # ds) =
     (if is_space c then fromhex (d # ds)
      else (case (hex_value c, hex_value d) of
              (Some hi, Some lo) \<Rightarrow>
                (case fromhex ds of
                   Inl e \<Rightarrow> Inl e
                 | Inr bs \<Rightarrow> Inr ((16 * hi + lo) # bs))
            | _ \<Rightarrow> Inl ValueError))"

text \<open>
  \<^verbatim>\<open>Color.from_html_hex\<close>: the two assertions, the parse, then the three index
  operations, each of which raises IndexError when the byte is not there.
\<close>

definition from_html_hex :: "string \<Rightarrow> py_error + Color" where
  "from_html_hex hex =
     (if \<not> (case hex of [] \<Rightarrow> False | c # _ \<Rightarrow> c = CHR ''#'') then Inl AssertionError
      else if length hex \<noteq> 7 then Inl AssertionError
      else (case fromhex (tl hex) of
              Inl e \<Rightarrow> Inl e
            | Inr rgb \<Rightarrow>
                if length rgb < 3 then Inl IndexError
                else Inr \<lparr>col_r = int (rgb ! 0), col_g = int (rgb ! 1), col_b = int (rgb ! 2)\<rparr>))"

subsection \<open>Colors from floats\<close>

text \<open>
  A Python float is a finite IEEE-754 double, an infinity or NaN. A finite double is
  given by its exact real value.
\<close>

datatype pyfloat = Finite real | PosInf | NegInf | NaN

text \<open>
  The least magnitude that round-to-nearest takes to infinity: the largest double plus
  half a unit in the last place.
\<close>

definition overflow_threshold :: real where
  "overflow_threshold = 2 ^ 1024 - 2 ^ 970"

text \<open>
  The product \<^verbatim>\<open>x * 255.0\<close>. NaN and the infinities propagate (255.0 is positive); the
  exact product of a finite \<open>x\<close> is rounded to a double, or to an infinity when it is out
  of range. Which double an in-range product is rounded to is the parameter \<open>rnd\<close>:
  nothing below depends on it.
\<close>

definition mul_255 :: "(real \<Rightarrow> real) \<Rightarrow> pyfloat \<Rightarrow> pyfloat" where
  "mul_255 rnd x =
     (case x of
        NaN \<Rightarrow> NaN
      | PosInf \<Rightarrow> PosInf
      | NegInf \<Rightarrow> NegInf
      | Finite v \<Rightarrow>
          if overflow_threshold \<le> v * 255 then PosInf
          else if v * 255 \<le> - overflow_threshold then NegInf
          else Finite (rnd (v * 255)))"

text \<open>
  \<^verbatim>\<open>int(x)\<close> of a float: truncation towards zero; ValueError for NaN, OverflowError for
  an infinity.
\<close>

definition int_of_float :: "pyfloat \<Rightarrow> py_error + int" where
  "int_of_float x =
     (case x of
        NaN \<Rightarrow> Inl ValueError
      | PosInf \<Rightarrow> Inl OverflowError
      | NegInf \<Rightarrow> Inl OverflowError
      | Finite v \<Rightarrow> Inr (if 0 \<le> v then \<lfloor>v\<rfloor> else \<lceil>v\<rceil>))"

text \<open>
  The expression \<^verbatim>\<open>min(255, max(0, int(x * 255.0)))\<close>, which the source writes once
  for each of the three components.
\<close>

definition component :: "(real \<Rightarrow> real) \<Rightarrow> pyfloat \<Rightarrow> py_error + int" where
  "component rnd x =
     (case int_of_float (mul_255 rnd x) of
        Inl e \<Rightarrow> Inl e
      | Inr n \<Rightarrow> Inr (min 255 (max 0 n)))"

text \<open>
  \<^verbatim>\<open>Color.from_rgb_floats\<close>. The arguments of the constructor are evaluated from left
  to right, so the first component that raises decides the exception.
\<close>

definition from_rgb_floats :: "(real \<Rightarrow> real) \<Rightarrow> pyfloat \<Rightarrow> pyfloat \<Rightarrow> pyfloat \<Rightarrow> py_error + Color" where
  "from_rgb_floats rnd r g b =
     (case component rnd r of
        Inl e \<Rightarrow> Inl e
      | Inr r' \<Rightarrow>
          (case component rnd g of
             Inl e \<Rightarrow> Inl e
           | Inr g' \<Rightarrow>
               (case component rnd b of
                  Inl e \<Rightarrow> Inl e
                | Inr b' \<Rightarrow> Inr \<lparr>col_r = r', col_g = g', col_b = b'\<rparr>)))"

section \<open>The ledger (hanson/models/transaction.py)\<close>

subsection \<open>Amounts and rows\<close>

text \<open>
  Amounts are \<^verbatim>\<open>Decimal\<close> values in Python and \<^verbatim>\<open>NUMERIC\<close> values in the database.
  A fixed-precision decimal is an integral number of its smallest unit, so an amount is
  an \<open>int\<close> counting that unit; addition and equality are exact.
\<close>

type_synonym decimal = int

text \<open>
  Modelled from the spec: the class \<^verbatim>\<open>Points\<close> of \<^verbatim>\<open>hanson.models.currency\<close> is not part
  of the sources at hand. It wraps one signed amount (the field \<^verbatim>\<open>amount\<close> read by
  \<^verbatim>\<open>amount.amount\<close>), its addition adds the amounts without rounding, and equality is
  exact (spec 4.1).
\<close>

datatype Points = Points (points_amount: decimal)

definition points_add :: "Points \<Rightarrow> Points \<Rightarrow> Points" where
  "points_add p q = Points (points_amount p + points_amount q)"

text \<open>
  Modelled from the spec: the owner of an account is a tagged variant (spec 3); an
  account row has an id, an owner and a currency tag.
\<close>

datatype owner = User int | MarketPoints int | MarketPool int int

record account_row =
  acc_id :: int
  acc_owner :: owner
  acc_currency :: string

text \<open>The rows that the three INSERT statements of the source write, column by column.\<close>

record transaction_row =
  tx_id :: int
  tx_type :: string

record mutation_row =
  mut_id :: int
  mut_transaction_id :: int
  mut_debit_account_id :: int
  mut_amount :: decimal

record account_balance_row =
  ab_account_id :: int
  ab_mutation_id :: int
  ab_post_balance :: decimal

text \<open>
  The state seen through the open database transaction \<^verbatim>\<open>tx\<close>: the four tables, rows
  in insertion order, and the sequences behind the generated \<^verbatim>\<open>id\<close> columns. A sequence
  holds the last id it issued; the next one is its successor.
\<close>

record database =
  account_tbl :: "account_row list"
  transaction_tbl :: "transaction_row list"
  mutation_tbl :: "mutation_row list"
  account_balance_tbl :: "account_balance_row list"
  account_id_seq :: int
  transaction_id_seq :: int
  mutation_id_seq :: int

definition empty_database :: database where
  "empty_database =
     \<lparr>account_tbl = [], transaction_tbl = [], mutation_tbl = [], account_balance_tbl = [],
      account_id_seq = 0, transaction_id_seq = 0, mutation_id_seq = 0\<rparr>"

subsection \<open>Reading balances\<close>

text \<open>The snapshots of one account, ordered by \<^verbatim>\<open>mutation_id\<close> ascending.\<close>

definition snapshots_of :: "database \<Rightarrow> int \<Rightarrow> account_balance_row list" where
  "snapshots_of db aid =
     sort_key ab_mutation_id (filter (\<lambda>s. ab_account_id s = aid) (account_balance_tbl db))"

text \<open>
  Modelled from the spec: the SQL function \<^verbatim>\<open>account_current_balance\<close> is defined in
  the database schema, which is not part of the sources at hand. It yields the
  \<^verbatim>\<open>post_balance\<close> of the account's latest snapshot, the first one by
  \<^verbatim>\<open>mutation_id\<close> descending (spec 3, 6), and NULL when the account has no snapshot.
\<close>

definition account_current_balance :: "database \<Rightarrow> int \<Rightarrow> decimal option" where
  "account_current_balance db aid =
     (case rev (snapshots_of db aid) of
        [] \<Rightarrow> None
      | s # _ \<Rightarrow> Some (ab_post_balance s))"

text \<open>SQL's \<^verbatim>\<open>COALESCE\<close> with two arguments.\<close>

definition coalesce :: "'a option \<Rightarrow> 'a \<Rightarrow> 'a" where
  "coalesce v d = (case v of None \<Rightarrow> d | Some x \<Rightarrow> x)"

text \<open>
  The current balance of an account (spec 4.4), which is also the expression
  \<^verbatim>\<open>COALESCE(account_current_balance(account_id), 0)\<close> of the source.
\<close>

definition current_balance :: "database \<Rightarrow> int \<Rightarrow> decimal" where
  "current_balance db aid = coalesce (account_current_balance db aid) 0"

text \<open>
  Modelled from the spec: \<^verbatim>\<open>history\<close> (spec 4.4) is not part of the sources at hand.
  The mutations that affect an account, ordered by id, and the fold of their amounts.
\<close>

definition history :: "database \<Rightarrow> int \<Rightarrow> mutation_row list" where
  "history db aid =
     sort_key mut_id (filter (\<lambda>m. mut_debit_account_id m = aid) (mutation_tbl db))"

definition fold_history :: "database \<Rightarrow> int \<Rightarrow> decimal" where
  "fold_history db aid = foldl (\<lambda>acc m. acc + mut_amount m) 0 (history db aid)"

subsection \<open>The account registry\<close>

text \<open>
  The account object that the source reads through \<^verbatim>\<open>account.id\<close> and
  \<^verbatim>\<open>account.balance\<close>.
\<close>

record UserAccount =
  ua_id :: int
  ua_balance :: Points

text \<open>
  Modelled from the spec: the lookup of the user's points account in the account table,
  the first half of the get-or-create below. There is one account for each owner and
  currency (spec 3).
\<close>

definition find_points_account :: "database \<Rightarrow> int \<Rightarrow> account_row option" where
  "find_points_account db user_id =
     find (\<lambda>a. acc_owner a = User user_id \<and> acc_currency a = ''points'') (account_tbl db)"

text \<open>
  Modelled from the spec: \<^verbatim>\<open>UserAccount.ensure_points_account\<close> of
  \<^verbatim>\<open>hanson.models.account\<close> is not part of the sources at hand. It is an idempotent
  get-or-create (spec 3, 4.2): an existing points account of the user is returned with
  its current balance; otherwise one row is inserted, with the next id of the sequence,
  and returned with the balance of a fresh account, zero. The docstring of
  \<^verbatim>\<open>create_transaction_income\<close> says the same: if the user has no account yet, one
  will be created.
\<close>

definition ensure_points_account :: "database \<Rightarrow> int \<Rightarrow> database \<times> UserAccount" where
  "ensure_points_account db user_id =
     (case find_points_account db user_id of
        Some a \<Rightarrow>
          (db, \<lparr>ua_id = acc_id a, ua_balance = Points (current_balance db (acc_id a))\<rparr>)
      | None \<Rightarrow>
          (let new_id = account_id_seq db + 1 in
           (db\<lparr>account_tbl :=
                 account_tbl db @
                 [\<lparr>acc_id = new_id, acc_owner = User user_id, acc_currency = ''points''\<rparr>],
               account_id_seq := new_id\<rparr>,
            \<lparr>ua_id = new_id, ua_balance = Points 0\<rparr>)))"

subsection \<open>The three INSERT statements\<close>

text \<open>
  Each statement appends one row. The constraints of the database schema, which is not
  part of the sources at hand, are not modelled: a statement does not fail.

  \<^verbatim>\<open>INSERT INTO "transaction" (type) VALUES ('income') RETURNING id\<close>
\<close>

definition insert_transaction :: "database \<Rightarrow> string \<Rightarrow> database \<times> int" where
  "insert_transaction db ty =
     (let new_id = transaction_id_seq db + 1 in
      (db\<lparr>transaction_tbl := transaction_tbl db @ [\<lparr>tx_id = new_id, tx_type = ty\<rparr>],
          transaction_id_seq := new_id\<rparr>,
       new_id))"

text \<open>
  \<^verbatim>\<open>INSERT INTO "mutation" (transaction_id, debit_account_id, amount) ... RETURNING id\<close>
\<close>

definition insert_mutation :: "database \<Rightarrow> int \<Rightarrow> int \<Rightarrow> decimal \<Rightarrow> database \<times> int" where
  "insert_mutation db transaction_id account_id amount =
     (let new_id = mutation_id_seq db + 1 in
      (db\<lparr>mutation_tbl :=
            mutation_tbl db @
            [\<lparr>mut_id = new_id, mut_transaction_id = transaction_id,
              mut_debit_account_id = account_id, mut_amount = amount\<rparr>],
          mutation_id_seq := new_id\<rparr>,
       new_id))"

text \<open>
  \<^verbatim>\<open>INSERT INTO "account_balance" (account_id, mutation_id, post_balance) VALUES
  (account_id, mutation_id, COALESCE(account_current_balance(account_id), 0) + amount)
  RETURNING post_balance\<close>. The balance is read in the state the statement runs in.
\<close>

definition insert_account_balance ::
    "database \<Rightarrow> int \<Rightarrow> int \<Rightarrow> decimal \<Rightarrow> database \<times> decimal" where
  "insert_account_balance db account_id mutation_id amount =
     (let post_balance = coalesce (account_current_balance db account_id) 0 + amount in
      (db\<lparr>account_balance_tbl :=
            account_balance_tbl db @
            [\<lparr>ab_account_id = account_id, ab_mutation_id = mutation_id,
              ab_post_balance = post_balance\<rparr>]\<rparr>,
       post_balance))"

subsection \<open>Creating an income transaction\<close>

text \<open>
  \<^verbatim>\<open>create_transaction_income(tx, user_id, amount)\<close>. The function works on the open
  database transaction \<^verbatim>\<open>tx\<close> and neither commits nor rolls back, so the model returns
  the state of \<^verbatim>\<open>tx\<close> together with the returned id or the exception raised. The
  assertion \<^verbatim>\<open>isinstance(account.balance, Points)\<close> holds by the type of \<open>ua_balance\<close>.
  The final assertion comes after the three INSERT statements.
\<close>

definition create_transaction_income ::
    "database \<Rightarrow> int \<Rightarrow> Points \<Rightarrow> database \<times> (py_error + int)" where
  "create_transaction_income tx user_id amount =
     (let (tx1, account) = ensure_points_account tx user_id;
          (tx2, transaction_id) = insert_transaction tx1 ''income'';
          (tx3, mutation_id) =
            insert_mutation tx2 transaction_id (ua_id account) (points_amount amount);
          (tx4, post_balance) =
            insert_account_balance tx3 (ua_id account) mutation_id (points_amount amount)
      in if points_add amount (ua_balance account) = Points post_balance
         then (tx4, Inr transaction_id)
         else (tx4, Inl AssertionError))"

text \<open>
  A sequence of calls, as a caller makes them one after the other on the same open
  transaction, stopping at the first exception. This is not a function of the source:
  it states what holds after any number of calls.
\<close>

fun create_incomes :: "database \<Rightarrow> (int \<times> Points) list \<Rightarrow> py_error + database" where
  "create_incomes tx [] = Inr tx"
| "create_incomes tx ((user_id, amount) # rest) =
     (case create_transaction_income tx user_id amount of
        (tx', Inl e) \<Rightarrow> Inl e
      | (tx', Inr _) \<Rightarrow> create_incomes tx' rest)"

subsection \<open>Invariants of the tables\<close>

text \<open>
  Every id stored in a row was issued by its sequence: the generated ids of the rows,
  and the ids that rows refer to through their foreign keys.
\<close>

definition ids_issued :: "database \<Rightarrow> bool" where
  "ids_issued db \<longleftrightarrow>
     (\<forall>a \<in> set (account_tbl db). acc_id a \<le> account_id_seq db) \<and>
     (\<forall>t \<in> set (transaction_tbl db). tx_id t \<le> transaction_id_seq db) \<and>
     (\<forall>m \<in> set (mutation_tbl db).
        mut_id m \<le> mutation_id_seq db \<and>
        mut_transaction_id m \<le> transaction_id_seq db \<and>
        mut_debit_account_id m \<le> account_id_seq db) \<and>
     (\<forall>s \<in> set (account_balance_tbl db).
        ab_mutation_id s \<le> mutation_id_seq db \<and>
        ab_account_id s \<le> account_id_seq db)"

text \<open>The amount of the mutation with a given id that affects a given account.\<close>

definition mutation_amount :: "database \<Rightarrow> int \<Rightarrow> int \<Rightarrow> decimal option" where
  "mutation_amount db aid mid =
     map_option mut_amount
       (find (\<lambda>m. mut_id m = mid \<and> mut_debit_account_id m = aid) (mutation_tbl db))"

text \<open>
  The running balance along a list of snapshots: each \<^verbatim>\<open>post_balance\<close> is the one
  before it plus the amount of the snapshot's mutation; \<open>prev\<close> is the balance before
  the first snapshot.
\<close>

fun running_balance :: "(int \<Rightarrow> decimal option) \<Rightarrow> decimal \<Rightarrow> account_balance_row list \<Rightarrow> bool" where
  "running_balance amt prev [] = True"
| "running_balance amt prev (s # ss) =
     ((case amt (ab_mutation_id s) of
         None \<Rightarrow> False
       | Some a \<Rightarrow> ab_post_balance s = prev + a)
      \<and> running_balance amt (ab_post_balance s) ss)"

text \<open>
  The invariant of the balance snapshots (spec 3): for every account, the snapshots in
  the order of their mutation ids carry the running balance, starting from zero.
\<close>

definition snapshot_invariant :: "database \<Rightarrow> bool" where
  "snapshot_invariant db \<longleftrightarrow>
     (\<forall>aid \<in> set (map ab_account_id (account_balance_tbl db)).
        running_balance (mutation_amount db aid) 0 (snapshots_of db aid))"

text \<open>Replay equivalence (spec 8): the current balance is the fold of the history.\<close>

definition replay_invariant :: "database \<Rightarrow> bool" where
  "replay_invariant db \<longleftrightarrow>
     (\<forall>aid \<in> set (map ab_account_id (account_balance_tbl db) @
                  map mut_debit_account_id (mutation_tbl db)).
        current_balance db aid = fold_history db aid)"

definition ledger_invariant :: "database \<Rightarrow> bool" where
  "ledger_invariant db \<longleftrightarrow> ids_issued db \<and> snapshot_invariant db \<and> replay_invariant db"

subsection \<open>Notions used in the statements\<close>

text \<open>
  The id of the user's points account as \<^verbatim>\<open>create_transaction_income\<close> obtains it: the
  id of the existing account, or of the one that is created.
\<close>

definition points_account_id :: "database \<Rightarrow> int \<Rightarrow> int" where
  "points_account_id db user_id = ua_id (snd (ensure_points_account db user_id))"

text \<open>
  A database with some history. User 1 received an income of 100 and then transferred
  40 to user 2; the market 1 has an account without mutations; user 5 has no account.
  The transfer has two mutations, so the transaction and mutation sequences differ.
\<close>

definition example_database :: database where
  "example_database =
     \<lparr>account_tbl =
        [\<lparr>acc_id = 1, acc_owner = User 1, acc_currency = ''points''\<rparr>,
         \<lparr>acc_id = 2, acc_owner = MarketPoints 1, acc_currency = ''points''\<rparr>,
         \<lparr>acc_id = 3, acc_owner = User 2, acc_currency = ''points''\<rparr>],
      transaction_tbl =
        [\<lparr>tx_id = 1, tx_type = ''income''\<rparr>, \<lparr>tx_id = 2, tx_type = ''transfer''\<rparr>],
      mutation_tbl =
        [\<lparr>mut_id = 1, mut_transaction_id = 1, mut_debit_account_id = 1, mut_amount = 100\<rparr>,
         \<lparr>mut_id = 2, mut_transaction_id = 2, mut_debit_account_id = 1, mut_amount = - 40\<rparr>,
         \<lparr>mut_id = 3, mut_transaction_id = 2, mut_debit_account_id = 3, mut_amount = 40\<rparr>],
      account_balance_tbl =
        [\<lparr>ab_account_id = 1, ab_mutation_id = 1, ab_post_balance = 100\<rparr>,
         \<lparr>ab_account_id = 1, ab_mutation_id = 2, ab_post_balance = 60\<rparr>,
         \<lparr>ab_account_id = 3, ab_mutation_id = 3, ab_post_balance = 40\<rparr>],
      account_id_seq = 3, transaction_id_seq = 2, mutation_id_seq = 3\<rparr>"

text \<open>
  A database whose only snapshot disagrees with the mutation it belongs to: the
  mutation has the amount 5, the snapshot says 7.
\<close>

definition inconsistent_database :: database where
  "inconsistent_database =
     \<lparr>account_tbl = [\<lparr>acc_id = 1, acc_owner = User 1, acc_currency = ''points''\<rparr>],
      transaction_tbl = [\<lparr>tx_id = 1, tx_type = ''income''\<rparr>],
      mutation_tbl =
        [\<lparr>mut_id = 1, mut_transaction_id = 1, mut_debit_account_id = 1, mut_amount = 5\<rparr>],
      account_balance_tbl =
        [\<lparr>ab_account_id = 1, ab_mutation_id = 1, ab_post_balance = 7\<rparr>],
      account_id_seq = 1, transaction_id_seq = 1, mutation_id_seq = 1\<rparr>"

section \<open>Properties of the colors\<close>

subsection \<open>The round trip through HTML hex\<close>

lemma hex_digit_cases:
  assumes "n < 16"
  shows "hex_value (hex_digit n) = Some n \<and> \<not> is_space (hex_digit n)"
proof -
  have "list_all (\<lambda>k. hex_value (hex_digit k) = Some k \<and> \<not> is_space (hex_digit k)) [0..<16]"
    by code_simp
  then have "\<forall>k \<in> set [0..<16]. hex_value (hex_digit k) = Some k \<and> \<not> is_space (hex_digit k)"
    by (simp only: list_all_iff)
  moreover have "n \<in> set [0..<16]" using assms by simp
  ultimately show ?thesis by blast
qed

text \<open>A component between 0 and 255 is formatted as exactly two digits.\<close>

lemma format_02x_byte:
  assumes "0 \<le> v" "v \<le> 255"
  shows "format_02x v = [hex_digit (nat v div 16), hex_digit (nat v mod 16)]"
proof (cases "nat v < 16")
  case True
  then show ?thesis using assms
    by (simp add: format_02x_def zero_fill_def hex_of_nat.simps [of "nat v"] hex_digit_def)
next
  case False
  then have "nat v div 16 < 16" using assms by auto
  then show ?thesis using assms False
    by (simp add: format_02x_def zero_fill_def hex_of_nat.simps [of "nat v"]
        hex_of_nat.simps [of "nat v div 16"])
qed

lemma fromhex_byte:
  assumes "0 \<le> v" "v \<le> 255"
  shows "fromhex (format_02x v @ rest) =
           (case fromhex rest of Inl e \<Rightarrow> Inl e | Inr bs \<Rightarrow> Inr (nat v # bs))"
proof -
  have d: "nat v div 16 < 16" and m: "nat v mod 16 < 16" using assms by auto
  have eq: "16 * (nat v div 16) + nat v mod 16 = nat v" by presburger
  show ?thesis
    by (simp add: format_02x_byte [OF assms] hex_digit_cases [OF d] hex_digit_cases [OF m] eq
        split: sum.split)
qed

text \<open>
  C9. For every Color whose components r, g and b are integers between 0 and 255,
  parsing the HTML hex string of the color gives the color back: the formatter and the
  parser are an exact round trip.
\<close>

theorem html_hex_round_trip:
  assumes "0 \<le> col_r c" "col_r c \<le> 255" "0 \<le> col_g c" "col_g c \<le> 255"
    "0 \<le> col_b c" "col_b c \<le> 255"
  shows "from_html_hex (to_html_hex c) = Inr c"
proof -
  have len: "length (to_html_hex c) = 7"
    using assms by (simp add: to_html_hex_def format_02x_byte)
  have parse: "fromhex (tl (to_html_hex c)) = Inr [nat (col_r c), nat (col_g c), nat (col_b c)]"
    using assms fromhex_byte [of "col_b c" "[]"]
    by (simp add: to_html_hex_def fromhex_byte)
  show ?thesis
    using assms by (simp add: from_html_hex_def len parse) (simp add: to_html_hex_def)
qed

theorem html_hex_round_trip_witness:
  "0 \<le> col_r \<lparr>col_r = 255, col_g = 0, col_b = 18\<rparr>
   \<and> col_r \<lparr>col_r = 255, col_g = 0, col_b = 18\<rparr> \<le> 255
   \<and> 0 \<le> col_g \<lparr>col_r = 255, col_g = 0, col_b = 18\<rparr>
   \<and> col_g \<lparr>col_r = 255, col_g = 0, col_b = 18\<rparr> \<le> 255
   \<and> 0 \<le> col_b \<lparr>col_r = 255, col_g = 0, col_b = 18\<rparr>
   \<and> col_b \<lparr>col_r = 255, col_g = 0, col_b = 18\<rparr> \<le> 255
   \<and> to_html_hex \<lparr>col_r = 255, col_g = 0, col_b = 18\<rparr> = ''#ff0012''
   \<and> from_html_hex ''#ff0012'' = Inr \<lparr>col_r = 255, col_g = 0, col_b = 18\<rparr>"
proof -
  have s: "to_html_hex \<lparr>col_r = 255, col_g = 0, col_b = 18\<rparr> = ''#ff0012''"
    by code_simp
  from html_hex_round_trip [of "\<lparr>col_r = 255, col_g = 0, col_b = 18\<rparr>"] s show ?thesis
    by simp
qed

text \<open>
  Outside the range the round trip fails: 256 is formatted with three digits and the
  parser refuses the eight characters.
\<close>

lemma html_hex_out_of_range:
  "to_html_hex \<lparr>col_r = 256, col_g = 0, col_b = 18\<rparr> = ''#1000012''
   \<and> from_html_hex ''#1000012'' = Inl AssertionError"
  by code_simp

subsection \<open>Colors from floats\<close>

lemma component_finite:
  assumes "\<bar>v * 255\<bar> < overflow_threshold"
  shows "\<exists>n. component rnd (Finite v) = Inr n \<and> 0 \<le> n \<and> n \<le> 255"
proof -
  from assms have "\<not> overflow_threshold \<le> v * 255" "\<not> v * 255 \<le> - overflow_threshold"
    by linarith+
  then have "component rnd (Finite v) =
      Inr (min 255 (max 0 (if 0 \<le> rnd (v * 255) then \<lfloor>rnd (v * 255)\<rfloor> else \<lceil>rnd (v * 255)\<rceil>)))"
    by (simp add: component_def mul_255_def int_of_float_def)
  then show ?thesis by simp
qed

text \<open>Whatever the inputs are, a color that is returned has its components in range.\<close>

lemma component_range: "component rnd x = Inr n \<Longrightarrow> 0 \<le> n \<and> n \<le> 255"
  by (auto simp: component_def split: sum.splits)

lemma from_rgb_floats_returned_in_range:
  assumes "from_rgb_floats rnd x y z = Inr c"
  shows "0 \<le> col_r c \<and> col_r c \<le> 255 \<and> 0 \<le> col_g c \<and> col_g c \<le> 255
    \<and> 0 \<le> col_b c \<and> col_b c \<le> 255"
  using assms
  by (auto simp: from_rgb_floats_def split: sum.splits dest: component_range)

text \<open>
  C10, as the code has it. For all finite floats r, g and b whose products with 255.0
  are below the overflow threshold of a double, values outside [0, 1] included,
  \<^verbatim>\<open>Color.from_rgb_floats(r, g, b)\<close> returns a Color whose three components lie within
  0..255.
\<close>

theorem from_rgb_floats_in_range:
  assumes "\<bar>r * 255\<bar> < overflow_threshold" "\<bar>g * 255\<bar> < overflow_threshold"
    "\<bar>b * 255\<bar> < overflow_threshold"
  shows "\<exists>c. from_rgb_floats rnd (Finite r) (Finite g) (Finite b) = Inr c
    \<and> 0 \<le> col_r c \<and> col_r c \<le> 255 \<and> 0 \<le> col_g c \<and> col_g c \<le> 255
    \<and> 0 \<le> col_b c \<and> col_b c \<le> 255"
proof -
  obtain r' where r': "component rnd (Finite r) = Inr r'" "0 \<le> r'" "r' \<le> 255"
    using component_finite [OF assms(1)] by blast
  obtain g' where g': "component rnd (Finite g) = Inr g'" "0 \<le> g'" "g' \<le> 255"
    using component_finite [OF assms(2)] by blast
  obtain b' where b': "component rnd (Finite b) = Inr b'" "0 \<le> b'" "b' \<le> 255"
    using component_finite [OF assms(3)] by blast
  show ?thesis using r' g' b' by (simp add: from_rgb_floats_def)
qed

theorem from_rgb_floats_in_range_witness:
  "\<bar>(2::real) * 255\<bar> < overflow_threshold \<and> \<bar>(- 1 / 2 :: real) * 255\<bar> < overflow_threshold
   \<and> \<bar>(1 / 2 :: real) * 255\<bar> < overflow_threshold
   \<and> from_rgb_floats id (Finite 2) (Finite (- 1 / 2)) (Finite (1 / 2))
       = Inr \<lparr>col_r = 255, col_g = 0, col_b = 127\<rparr>"
proof -
  have h: "\<bar>(2::real) * 255\<bar> < overflow_threshold"
    "\<bar>(- 1 / 2 :: real) * 255\<bar> < overflow_threshold"
    "\<bar>(1 / 2 :: real) * 255\<bar> < overflow_threshold"
    by (simp_all add: overflow_threshold_def)
  from from_rgb_floats_in_range [OF h, of id] h show ?thesis
    by (simp add: from_rgb_floats_def component_def mul_255_def int_of_float_def
        overflow_threshold_def)
qed

text \<open>
  C10 does not hold for every real input: \<open>2 ^ 1023\<close> is a finite double, its product with
  255.0 overflows to infinity, and \<^verbatim>\<open>int\<close> of an infinity raises OverflowError, so no
  Color is returned.
\<close>

theorem from_rgb_floats_overflow_counterexample:
  "from_rgb_floats id (Finite (2 ^ 1023)) (Finite 0) (Finite 0) = Inl OverflowError"
  by (simp add: from_rgb_floats_def component_def mul_255_def int_of_float_def
      overflow_threshold_def)

section \<open>Properties of the ledger\<close>

subsection \<open>Sorting a list whose last element has the greatest key\<close>

lemma insort_key_snoc:
  "f a \<le> f x \<Longrightarrow> insort_key f a (zs @ [x]) = insort_key f a zs @ [x]"
  by (induction zs) auto

lemma sort_key_snoc:
  "\<forall>y \<in> set ys. f y \<le> f x \<Longrightarrow> sort_key f (ys @ [x]) = sort_key f ys @ [x]"
  by (induction ys) (auto simp: insort_key_snoc)

subsection \<open>Reading balances depends on the snapshot table only\<close>

lemma snapshots_of_cong:
  "account_balance_tbl db' = account_balance_tbl db \<Longrightarrow> snapshots_of db' aid = snapshots_of db aid"
  by (simp add: snapshots_of_def)

lemma current_balance_cong:
  "account_balance_tbl db' = account_balance_tbl db \<Longrightarrow> current_balance db' aid = current_balance db aid"
  by (simp add: current_balance_def account_current_balance_def snapshots_of_def)

lemma snapshots_of_snoc_same:
  assumes "account_balance_tbl db' = account_balance_tbl db @ [s]"
    and "\<forall>x \<in> set (account_balance_tbl db). ab_mutation_id x \<le> ab_mutation_id s"
  shows "snapshots_of db' (ab_account_id s) = snapshots_of db (ab_account_id s) @ [s]"
  using assms by (simp add: snapshots_of_def sort_key_snoc)

lemma snapshots_of_snoc_other:
  assumes "account_balance_tbl db' = account_balance_tbl db @ [s]" and "aid \<noteq> ab_account_id s"
  shows "snapshots_of db' aid = snapshots_of db aid"
  using assms by (simp add: snapshots_of_def)

lemma current_balance_snoc_same:
  assumes "account_balance_tbl db' = account_balance_tbl (db::database) @ [s]"
    and "\<forall>x \<in> set (account_balance_tbl db). ab_mutation_id x \<le> ab_mutation_id s"
  shows "current_balance db' (ab_account_id s) = ab_post_balance s"
  by (simp add: current_balance_def account_current_balance_def coalesce_def
      snapshots_of_snoc_same [OF assms])

lemma current_balance_snoc_other:
  assumes "account_balance_tbl db' = account_balance_tbl (db::database) @ [s]" and "aid \<noteq> ab_account_id s"
  shows "current_balance db' aid = current_balance db aid"
  by (simp add: current_balance_def account_current_balance_def
      snapshots_of_snoc_other [OF assms])

lemma current_balance_no_snapshots:
  "snapshots_of db aid = [] \<Longrightarrow> current_balance db aid = 0"
  by (simp add: current_balance_def account_current_balance_def coalesce_def)

lemma snapshots_of_absent:
  assumes "aid \<notin> ab_account_id ` set (account_balance_tbl db)"
  shows "snapshots_of db aid = []"
proof -
  have "filter (\<lambda>s. ab_account_id s = aid) (account_balance_tbl db) = []"
    using assms by (auto simp: filter_empty_conv)
  then show ?thesis by (simp add: snapshots_of_def)
qed

subsection \<open>The history\<close>

lemma history_snoc_same:
  assumes "mutation_tbl db' = mutation_tbl db @ [m]"
    and "\<forall>x \<in> set (mutation_tbl db). mut_id x \<le> mut_id m"
  shows "history db' (mut_debit_account_id m) = history db (mut_debit_account_id m) @ [m]"
  using assms by (simp add: history_def sort_key_snoc)

lemma history_snoc_other:
  assumes "mutation_tbl db' = mutation_tbl db @ [m]" and "aid \<noteq> mut_debit_account_id m"
  shows "history db' aid = history db aid"
  using assms by (simp add: history_def)

lemma fold_history_snoc_same:
  assumes "mutation_tbl db' = mutation_tbl db @ [m]"
    and "\<forall>x \<in> set (mutation_tbl db). mut_id x \<le> mut_id m"
  shows "fold_history db' (mut_debit_account_id m) = fold_history db (mut_debit_account_id m) + mut_amount m"
  by (simp add: fold_history_def history_snoc_same [OF assms])

lemma fold_history_snoc_other:
  assumes "mutation_tbl db' = mutation_tbl db @ [m]" and "aid \<noteq> mut_debit_account_id m"
  shows "fold_history db' aid = fold_history db aid"
  by (simp add: fold_history_def history_snoc_other [OF assms])

lemma fold_history_absent:
  assumes "aid \<notin> mut_debit_account_id ` set (mutation_tbl db)"
  shows "fold_history db aid = 0"
proof -
  have "filter (\<lambda>m. mut_debit_account_id m = aid) (mutation_tbl db) = []"
    using assms by (auto simp: filter_empty_conv)
  then show ?thesis by (simp add: fold_history_def history_def)
qed

subsection \<open>Ensuring the points account\<close>

lemma ensure_tables:
  "transaction_tbl (fst (ensure_points_account db u)) = transaction_tbl db"
  "mutation_tbl (fst (ensure_points_account db u)) = mutation_tbl db"
  "account_balance_tbl (fst (ensure_points_account db u)) = account_balance_tbl db"
  "transaction_id_seq (fst (ensure_points_account db u)) = transaction_id_seq db"
  "mutation_id_seq (fst (ensure_points_account db u)) = mutation_id_seq db"
  by (simp_all add: ensure_points_account_def Let_def split: option.split)

lemma ensure_existing:
  "find_points_account db u = Some a \<Longrightarrow>
     ensure_points_account db u =
       (db, \<lparr>ua_id = acc_id a, ua_balance = Points (current_balance db (acc_id a))\<rparr>)"
  by (simp add: ensure_points_account_def)

lemma ensure_fresh:
  "find_points_account db u = None \<Longrightarrow>
     ensure_points_account db u =
       (db\<lparr>account_tbl := account_tbl db @
              [\<lparr>acc_id = account_id_seq db + 1, acc_owner = User u, acc_currency = ''points''\<rparr>],
           account_id_seq := account_id_seq db + 1\<rparr>,
        \<lparr>ua_id = account_id_seq db + 1, ua_balance = Points 0\<rparr>)"
  by (simp add: ensure_points_account_def Let_def)

lemma ensure_balance:
  assumes "ids_issued db"
  shows "ua_balance (snd (ensure_points_account db u)) = Points (current_balance db (points_account_id db u))"
proof (cases "find_points_account db u")
  case None
  have "account_id_seq db + 1 \<notin> ab_account_id ` set (account_balance_tbl db)"
    using assms by (fastforce simp: ids_issued_def)
  then have "current_balance db (account_id_seq db + 1) = 0"
    by (simp add: snapshots_of_absent current_balance_no_snapshots)
  then show ?thesis by (simp add: points_account_id_def ensure_fresh [OF None])
next
  case (Some a)
  then show ?thesis by (simp add: points_account_id_def ensure_existing)
qed

lemma ensure_ids_issued:
  assumes "ids_issued db"
  shows "ids_issued (fst (ensure_points_account db u))"
proof (cases "find_points_account db u")
  case None
  show ?thesis using assms by (fastforce simp: ensure_fresh [OF None] ids_issued_def)
next
  case (Some a)
  then show ?thesis using assms by (simp add: ensure_existing)
qed

lemma points_account_id_le:
  "ids_issued db \<Longrightarrow> points_account_id db u \<le> account_id_seq (fst (ensure_points_account db u))"
  by (cases "find_points_account db u")
     (auto simp: points_account_id_def ensure_fresh ensure_existing ids_issued_def
           find_points_account_def find_Some_iff)

lemma find_snoc:
  "find P (xs @ [y]) = (case find P xs of Some x \<Rightarrow> Some x | None \<Rightarrow> if P y then Some y else None)"
  by (induction xs) auto

lemma ensure_find:
  "\<exists>a. find_points_account (fst (ensure_points_account db u)) u = Some a
     \<and> acc_id a = points_account_id db u \<and> acc_owner a = User u \<and> acc_currency a = ''points''"
proof (cases "find_points_account db u")
  case None
  then show ?thesis
    by (simp add: points_account_id_def ensure_fresh [OF None])
       (simp add: find_points_account_def find_snoc)
next
  case (Some a)
  then show ?thesis
    by (auto simp: points_account_id_def ensure_existing find_points_account_def find_Some_iff)
qed


subsection \<open>What one call writes\<close>

lemma coalesce_current_balance:
  "coalesce (account_current_balance db aid) 0 = current_balance db aid"
  by (simp add: current_balance_def)

lemma create_unfold:
  assumes "ensure_points_account db u = (tx1, account)"
  shows "create_transaction_income db u a =
    (tx1\<lparr>transaction_tbl :=
           transaction_tbl tx1 @ [\<lparr>tx_id = transaction_id_seq tx1 + 1, tx_type = ''income''\<rparr>],
         transaction_id_seq := transaction_id_seq tx1 + 1,
         mutation_tbl :=
           mutation_tbl tx1 @
           [\<lparr>mut_id = mutation_id_seq tx1 + 1, mut_transaction_id = transaction_id_seq tx1 + 1,
             mut_debit_account_id = ua_id account, mut_amount = points_amount a\<rparr>],
         mutation_id_seq := mutation_id_seq tx1 + 1,
         account_balance_tbl :=
           account_balance_tbl tx1 @
           [\<lparr>ab_account_id = ua_id account, ab_mutation_id = mutation_id_seq tx1 + 1,
             ab_post_balance = current_balance tx1 (ua_id account) + points_amount a\<rparr>]\<rparr>,
     if ua_balance account = Points (current_balance tx1 (ua_id account))
     then Inr (transaction_id_seq tx1 + 1) else Inl AssertionError)"
proof -
  let ?tx3 = "tx1\<lparr>transaction_tbl :=
           transaction_tbl tx1 @ [\<lparr>tx_id = transaction_id_seq tx1 + 1, tx_type = ''income''\<rparr>],
         transaction_id_seq := transaction_id_seq tx1 + 1,
         mutation_tbl :=
           mutation_tbl tx1 @
           [\<lparr>mut_id = mutation_id_seq tx1 + 1, mut_transaction_id = transaction_id_seq tx1 + 1,
             mut_debit_account_id = ua_id account, mut_amount = points_amount a\<rparr>],
         mutation_id_seq := mutation_id_seq tx1 + 1\<rparr>"
  have cb: "current_balance ?tx3 (ua_id account) = current_balance tx1 (ua_id account)"
    by (rule current_balance_cong) simp
  have eq: "(points_add a (ua_balance account)
              = Points (current_balance tx1 (ua_id account) + points_amount a))
            \<longleftrightarrow> ua_balance account = Points (current_balance tx1 (ua_id account))"
    by (cases a; cases "ua_balance account") (auto simp: points_add_def)
  show ?thesis
    using cb eq
    by (simp add: create_transaction_income_def assms insert_transaction_def insert_mutation_def
        insert_account_balance_def Let_def coalesce_current_balance)
qed

lemma create_tables:
  "account_tbl (fst (create_transaction_income db u a)) = account_tbl (fst (ensure_points_account db u))"
  "account_id_seq (fst (create_transaction_income db u a)) = account_id_seq (fst (ensure_points_account db u))"
  "transaction_tbl (fst (create_transaction_income db u a)) =
     transaction_tbl db @ [\<lparr>tx_id = transaction_id_seq db + 1, tx_type = ''income''\<rparr>]"
  "transaction_id_seq (fst (create_transaction_income db u a)) = transaction_id_seq db + 1"
  "mutation_tbl (fst (create_transaction_income db u a)) =
     mutation_tbl db @
     [\<lparr>mut_id = mutation_id_seq db + 1, mut_transaction_id = transaction_id_seq db + 1,
       mut_debit_account_id = points_account_id db u, mut_amount = points_amount a\<rparr>]"
  "mutation_id_seq (fst (create_transaction_income db u a)) = mutation_id_seq db + 1"
  "account_balance_tbl (fst (create_transaction_income db u a)) =
     account_balance_tbl db @
     [\<lparr>ab_account_id = points_account_id db u, ab_mutation_id = mutation_id_seq db + 1,
       ab_post_balance = current_balance db (points_account_id db u) + points_amount a\<rparr>]"
proof -
  obtain tx1 account where e: "ensure_points_account db u = (tx1, account)"
    by (cases "ensure_points_account db u")
  have cb: "current_balance tx1 (ua_id account) = current_balance db (ua_id account)"
    using ensure_tables(3) [of db u] e by (intro current_balance_cong) simp
  note t = ensure_tables [of db u, unfolded e, simplified]
  show "account_tbl (fst (create_transaction_income db u a)) = account_tbl (fst (ensure_points_account db u))"
    by (simp add: create_unfold [OF e] e)
  show "account_id_seq (fst (create_transaction_income db u a)) = account_id_seq (fst (ensure_points_account db u))"
    by (simp add: create_unfold [OF e] e)
  show "transaction_tbl (fst (create_transaction_income db u a)) =
     transaction_tbl db @ [\<lparr>tx_id = transaction_id_seq db + 1, tx_type = ''income''\<rparr>]"
    by (simp add: create_unfold [OF e] t)
  show "transaction_id_seq (fst (create_transaction_income db u a)) = transaction_id_seq db + 1"
    by (simp add: create_unfold [OF e] t)
  show "mutation_tbl (fst (create_transaction_income db u a)) =
     mutation_tbl db @
     [\<lparr>mut_id = mutation_id_seq db + 1, mut_transaction_id = transaction_id_seq db + 1,
       mut_debit_account_id = points_account_id db u, mut_amount = points_amount a\<rparr>]"
    by (simp add: create_unfold [OF e] t points_account_id_def e)
  show "mutation_id_seq (fst (create_transaction_income db u a)) = mutation_id_seq db + 1"
    by (simp add: create_unfold [OF e] t)
  show "account_balance_tbl (fst (create_transaction_income db u a)) =
     account_balance_tbl db @
     [\<lparr>ab_account_id = points_account_id db u, ab_mutation_id = mutation_id_seq db + 1,
       ab_post_balance = current_balance db (points_account_id db u) + points_amount a\<rparr>]"
    by (simp add: create_unfold [OF e] t points_account_id_def e cb)
qed

lemma create_result:
  "snd (create_transaction_income db u a) =
     (if ua_balance (snd (ensure_points_account db u)) = Points (current_balance db (points_account_id db u))
      then Inr (transaction_id_seq db + 1) else Inl AssertionError)"
proof -
  obtain tx1 account where e: "ensure_points_account db u = (tx1, account)"
    by (cases "ensure_points_account db u")
  have cb: "current_balance tx1 (ua_id account) = current_balance db (ua_id account)"
    using ensure_tables(3) [of db u] e by (intro current_balance_cong) simp
  note t = ensure_tables [of db u, unfolded e, simplified]
  show ?thesis
    by (simp add: create_unfold [OF e] t points_account_id_def e cb)
qed

lemma create_succeeds:
  "ids_issued db \<Longrightarrow> snd (create_transaction_income db u a) = Inr (transaction_id_seq db + 1)"
  by (simp add: create_result ensure_balance)


subsection \<open>Invariants\<close>

lemma create_ids_issued:
  assumes "ids_issued db"
  shows "ids_issued (fst (create_transaction_income db u a))"
proof -
  have e: "ids_issued (fst (ensure_points_account db u))"
    by (rule ensure_ids_issued [OF assms])
  have le: "points_account_id db u \<le> account_id_seq (fst (ensure_points_account db u))"
    by (rule points_account_id_le [OF assms])
  show ?thesis
    using e le by (auto simp: ids_issued_def create_tables ensure_tables)
qed

lemma create_snapshots_of:
  assumes "ids_issued db"
  shows "snapshots_of (fst (create_transaction_income db u a)) aid =
    (if aid = points_account_id db u
     then snapshots_of db aid @
          [\<lparr>ab_account_id = points_account_id db u, ab_mutation_id = mutation_id_seq db + 1,
            ab_post_balance = current_balance db (points_account_id db u) + points_amount a\<rparr>]
     else snapshots_of db aid)"
proof -
  let ?s = "\<lparr>ab_account_id = points_account_id db u, ab_mutation_id = mutation_id_seq db + 1,
            ab_post_balance = current_balance db (points_account_id db u) + points_amount a\<rparr>"
  have t: "account_balance_tbl (fst (create_transaction_income db u a)) = account_balance_tbl db @ [?s]"
    by (rule create_tables)
  have le: "\<forall>x \<in> set (account_balance_tbl db). ab_mutation_id x \<le> ab_mutation_id ?s"
    using assms by (fastforce simp: ids_issued_def)
  show ?thesis
    using snapshots_of_snoc_same [OF t le] snapshots_of_snoc_other [OF t, of aid] by simp
qed

lemma create_current_balance:
  assumes "ids_issued db"
  shows "current_balance (fst (create_transaction_income db u a)) aid =
    (if aid = points_account_id db u then current_balance db aid + points_amount a
     else current_balance db aid)"
  by (simp add: current_balance_def account_current_balance_def coalesce_def
      create_snapshots_of [OF assms])

lemma create_fold_history:
  assumes "ids_issued db"
  shows "fold_history (fst (create_transaction_income db u a)) aid =
    (if aid = points_account_id db u then fold_history db aid + points_amount a
     else fold_history db aid)"
proof -
  let ?m = "\<lparr>mut_id = mutation_id_seq db + 1, mut_transaction_id = transaction_id_seq db + 1,
       mut_debit_account_id = points_account_id db u, mut_amount = points_amount a\<rparr>"
  have t: "mutation_tbl (fst (create_transaction_income db u a)) = mutation_tbl db @ [?m]"
    by (rule create_tables)
  have le: "\<forall>x \<in> set (mutation_tbl db). mut_id x \<le> mut_id ?m"
    using assms by (fastforce simp: ids_issued_def)
  show ?thesis
    using fold_history_snoc_same [OF t le] fold_history_snoc_other [OF t, of aid] by simp
qed

lemma replay_all:
  assumes "replay_invariant db"
  shows "current_balance db aid = fold_history db aid"
proof (cases "aid \<in> ab_account_id ` set (account_balance_tbl db)
               \<or> aid \<in> mut_debit_account_id ` set (mutation_tbl db)")
  case True
  then show ?thesis using assms by (auto simp: replay_invariant_def)
next
  case False
  then show ?thesis
    by (simp add: snapshots_of_absent current_balance_no_snapshots fold_history_absent)
qed

lemma create_replay:
  assumes "ids_issued db" and "replay_invariant db"
  shows "replay_invariant (fst (create_transaction_income db u a))"
  unfolding replay_invariant_def
  by (simp add: create_current_balance [OF assms(1)] create_fold_history [OF assms(1)]
      replay_all [OF assms(2)])

lemma running_balance_mono:
  assumes "\<forall>s \<in> set xs. \<forall>a. amt (ab_mutation_id s) = Some a \<longrightarrow> amt' (ab_mutation_id s) = Some a"
    and "running_balance amt prev xs"
  shows "running_balance amt' prev xs"
  using assms by (induction xs arbitrary: prev) (auto split: option.splits)

lemma running_balance_snoc:
  "running_balance amt prev (xs @ [s]) \<longleftrightarrow>
     running_balance amt prev xs \<and>
     (case amt (ab_mutation_id s) of
        None \<Rightarrow> False
      | Some a \<Rightarrow> ab_post_balance s = (if xs = [] then prev else ab_post_balance (last xs)) + a)"
  by (induction xs arbitrary: prev) (auto split: option.splits)

lemma snapshot_all:
  assumes "snapshot_invariant db"
  shows "running_balance (mutation_amount db aid) 0 (snapshots_of db aid)"
proof (cases "aid \<in> ab_account_id ` set (account_balance_tbl db)")
  case True
  then show ?thesis using assms by (auto simp: snapshot_invariant_def)
next
  case False
  then show ?thesis by (simp add: snapshots_of_absent)
qed

lemma create_mutation_amount_old:
  "mutation_amount db aid mid = Some x \<Longrightarrow>
   mutation_amount (fst (create_transaction_income db u a)) aid mid = Some x"
  by (auto simp: mutation_amount_def create_tables find_snoc split: option.splits)

lemma create_mutation_amount_new:
  assumes "ids_issued db"
  shows "mutation_amount (fst (create_transaction_income db u a)) (points_account_id db u)
           (mutation_id_seq db + 1) = Some (points_amount a)"
proof -
  have "find (\<lambda>m. mut_id m = mutation_id_seq db + 1 \<and> mut_debit_account_id m = points_account_id db u)
          (mutation_tbl db) = None"
    using assms by (fastforce simp: find_None_iff ids_issued_def)
  then show ?thesis
    by (simp add: mutation_amount_def create_tables find_snoc)
qed

lemma current_balance_last_snapshot:
  "current_balance db aid =
     (if snapshots_of db aid = [] then 0 else ab_post_balance (last (snapshots_of db aid)))"
  by (cases "snapshots_of db aid" rule: rev_cases)
     (simp_all add: current_balance_def account_current_balance_def coalesce_def)

lemma create_snapshot_invariant:
  assumes "ids_issued db" and "snapshot_invariant db"
  shows "snapshot_invariant (fst (create_transaction_income db u a))"
proof -
  let ?db' = "fst (create_transaction_income db u a)"
  have "running_balance (mutation_amount ?db' aid) 0 (snapshots_of ?db' aid)" for aid
  proof -
    have old: "running_balance (mutation_amount ?db' aid) 0 (snapshots_of db aid)"
      by (rule running_balance_mono [OF _ snapshot_all [OF assms(2)]])
         (simp add: create_mutation_amount_old)
    show ?thesis
    proof (cases "aid = points_account_id db u")
      case False
      then show ?thesis using old by (simp add: create_snapshots_of [OF assms(1)])
    next
      case True
      show ?thesis
        using old True
        by (simp add: create_snapshots_of [OF assms(1)] running_balance_snoc
            create_mutation_amount_new [OF assms(1)] current_balance_last_snapshot)
    qed
  qed
  then show ?thesis by (simp add: snapshot_invariant_def)
qed

lemma create_ledger_invariant:
  "ledger_invariant db \<Longrightarrow> ledger_invariant (fst (create_transaction_income db u a))"
  by (simp add: ledger_invariant_def create_ids_issued create_replay create_snapshot_invariant)

lemma ledger_invariant_empty: "ledger_invariant empty_database"
  by (simp add: ledger_invariant_def ids_issued_def snapshot_invariant_def replay_invariant_def
      empty_database_def)

lemma find_points_account_create:
  "find_points_account (fst (create_transaction_income db u a)) u
     = find_points_account (fst (ensure_points_account db u)) u"
  by (simp add: find_points_account_def create_tables)

lemma create_account_tbl:
  "account_tbl (fst (create_transaction_income db u a)) =
     (if find_points_account db u = None
      then account_tbl db @
           [\<lparr>acc_id = account_id_seq db + 1, acc_owner = User u, acc_currency = ''points''\<rparr>]
      else account_tbl db)"
  by (cases "find_points_account db u") (simp_all add: create_tables ensure_fresh ensure_existing)

lemma ensure_find_eq:
  "find_points_account (fst (ensure_points_account db u)) u =
     Some (case find_points_account db u of
             Some existing \<Rightarrow> existing
           | None \<Rightarrow> \<lparr>acc_id = account_id_seq db + 1, acc_owner = User u, acc_currency = ''points''\<rparr>)"
proof (cases "find_points_account db u")
  case None
  then show ?thesis
    by (simp add: ensure_fresh [OF None]) (simp add: find_points_account_def find_snoc)
next
  case (Some a)
  then show ?thesis by (simp add: ensure_existing)
qed

lemma fresh_account_no_snapshots:
  assumes "ids_issued db" and "find_points_account db u = None"
  shows "snapshots_of db (points_account_id db u) = []" "current_balance db (points_account_id db u) = 0"
proof -
  have "points_account_id db u = account_id_seq db + 1"
    by (simp add: points_account_id_def ensure_fresh [OF assms(2)])
  moreover have "account_id_seq db + 1 \<notin> ab_account_id ` set (account_balance_tbl db)"
    using assms(1) by (fastforce simp: ids_issued_def)
  ultimately show "snapshots_of db (points_account_id db u) = []"
    by (simp add: snapshots_of_absent)
  then show "current_balance db (points_account_id db u) = 0"
    by (rule current_balance_no_snapshots)
qed

lemma create_mutations_of_transaction:
  assumes "ids_issued db"
  shows "filter (\<lambda>m. mut_transaction_id m = transaction_id_seq db + 1)
           (mutation_tbl (fst (create_transaction_income db u a))) =
         [\<lparr>mut_id = mutation_id_seq db + 1, mut_transaction_id = transaction_id_seq db + 1,
           mut_debit_account_id = points_account_id db u, mut_amount = points_amount a\<rparr>]"
proof -
  have "filter (\<lambda>m. mut_transaction_id m = transaction_id_seq db + 1) (mutation_tbl db) = []"
    using assms by (fastforce simp: filter_empty_conv ids_issued_def)
  then show ?thesis by (simp add: create_tables)
qed

lemma create_transaction_id_new:
  assumes "ids_issued db"
  shows "transaction_id_seq db + 1 \<notin> tx_id ` set (transaction_tbl db)"
  using assms by (fastforce simp: ids_issued_def)

lemma running_balance_nth:
  "running_balance amt prev xs \<longleftrightarrow>
     (\<forall>i<length xs. \<exists>a. amt (ab_mutation_id (xs ! i)) = Some a
        \<and> ab_post_balance (xs ! i) = (if i = 0 then prev else ab_post_balance (xs ! (i - 1))) + a)"
proof (induction xs arbitrary: prev)
  case Nil
  show ?case by simp
next
  case (Cons x xs)
  show ?case
    by (simp add: Cons.IH All_less_Suc2 nth_Cons' split: option.split)
qed

lemma ledger_invariant_chain:
  assumes "ledger_invariant db" and "i < length (snapshots_of db aid)"
  shows "\<exists>amt. mutation_amount db aid (ab_mutation_id (snapshots_of db aid ! i)) = Some amt
     \<and> ab_post_balance (snapshots_of db aid ! i) =
         (if i = 0 then 0 else ab_post_balance (snapshots_of db aid ! (i - 1))) + amt"
proof -
  have "running_balance (mutation_amount db aid) 0 (snapshots_of db aid)"
    using assms(1) by (simp add: ledger_invariant_def snapshot_all)
  then show ?thesis using assms(2) by (simp add: running_balance_nth)
qed

lemma create_incomes_invariant:
  "ledger_invariant db \<Longrightarrow> \<exists>db'. create_incomes db calls = Inr db' \<and> ledger_invariant db'"
proof (induction calls arbitrary: db)
  case Nil
  then show ?case by simp
next
  case (Cons call calls)
  obtain u a where call: "call = (u, a)" by (cases call)
  have ids: "ids_issued db" using Cons.prems by (simp add: ledger_invariant_def)
  have step: "create_transaction_income db u a =
      (fst (create_transaction_income db u a), Inr (transaction_id_seq db + 1))"
    using create_succeeds [OF ids, of u a] by (simp add: prod_eq_iff)
  have "ledger_invariant (fst (create_transaction_income db u a))"
    by (rule create_ledger_invariant [OF Cons.prems])
  from Cons.IH [OF this] show ?case
    by (subst call, subst create_incomes.simps, subst step) simp
qed

lemma history_empty_fold: "history db aid = [] \<Longrightarrow> fold_history db aid = 0"
  by (simp add: fold_history_def)

subsection \<open>The previous balance is the latest snapshot\<close>



subsection \<open>Conservation of an income\<close>

text \<open>
  C1. For every positive amount a and every user u, \<^verbatim>\<open>create_transaction_income(u, a)\<close>
  increases the current balance of u's points account by exactly a, and creates exactly
  one new mutation row and exactly one new balance snapshot row. The database is any
  one in which every stored id was issued by its sequence, as the identity columns and
  the foreign keys of the tables guarantee.
\<close>

theorem income_conservation:
  assumes "ids_issued db" and "0 < points_amount a"
  shows "\<exists>db' transaction_id acct m s.
     create_transaction_income db u a = (db', Inr transaction_id)
     \<and> find_points_account db' u = Some acct
     \<and> current_balance db' (acc_id acct) = current_balance db (acc_id acct) + points_amount a
     \<and> mutation_tbl db' = mutation_tbl db @ [m]
     \<and> mut_debit_account_id m = acc_id acct \<and> mut_amount m = points_amount a
     \<and> account_balance_tbl db' = account_balance_tbl db @ [s]
     \<and> ab_account_id s = acc_id acct \<and> ab_mutation_id s = mut_id m"
proof -
  let ?db' = "fst (create_transaction_income db u a)"
  let ?m = "\<lparr>mut_id = mutation_id_seq db + 1, mut_transaction_id = transaction_id_seq db + 1,
           mut_debit_account_id = points_account_id db u, mut_amount = points_amount a\<rparr>"
  let ?s = "\<lparr>ab_account_id = points_account_id db u, ab_mutation_id = mutation_id_seq db + 1,
       ab_post_balance = current_balance db (points_account_id db u) + points_amount a\<rparr>"
  obtain acct where acct: "find_points_account ?db' u = Some acct"
    "acc_id acct = points_account_id db u"
    using ensure_find [of db u] by (auto simp: find_points_account_create)
  show ?thesis
  proof (intro exI [of _ ?db'] exI [of _ "transaction_id_seq db + 1"] exI [of _ acct]
      exI [of _ ?m] exI [of _ ?s] conjI)
    show "create_transaction_income db u a = (?db', Inr (transaction_id_seq db + 1))"
      by (simp add: prod_eq_iff create_succeeds [OF assms(1)])
    show "find_points_account ?db' u = Some acct" by (rule acct(1))
    show "current_balance ?db' (acc_id acct) = current_balance db (acc_id acct) + points_amount a"
      by (simp add: create_current_balance [OF assms(1)] acct(2))
  qed (simp_all add: create_tables acct(2))
qed

theorem income_conservation_witness:
  "ids_issued example_database \<and> 0 < points_amount (Points 50)
   \<and> current_balance example_database 1 = 60
   \<and> snd (create_transaction_income example_database 1 (Points 50)) = Inr 3
   \<and> current_balance (fst (create_transaction_income example_database 1 (Points 50))) 1 = 110
   \<and> length (mutation_tbl (fst (create_transaction_income example_database 1 (Points 50)))) = 4
   \<and> length (account_balance_tbl (fst (create_transaction_income example_database 1 (Points 50)))) = 4"
proof -
  have h: "ids_issued example_database" "0 < points_amount (Points 50)"
    by (simp_all add: ids_issued_def example_database_def)
  have c: "current_balance example_database 1 = 60
   \<and> snd (create_transaction_income example_database 1 (Points 50)) = Inr 3
   \<and> current_balance (fst (create_transaction_income example_database 1 (Points 50))) 1 = 110
   \<and> length (mutation_tbl (fst (create_transaction_income example_database 1 (Points 50)))) = 4
   \<and> length (account_balance_tbl (fst (create_transaction_income example_database 1 (Points 50)))) = 4"
    by code_simp
  from income_conservation [OF h, of 1] h c show ?thesis
    by simp
qed

subsection \<open>The invariant of the balance snapshots\<close>

text \<open>
  C2. For every account, the snapshots ordered by mutation id satisfy
  \<open>post_balance[i] = post_balance[i-1] + amount[i]\<close>, where \<open>amount[i]\<close> is the amount
  of the mutation with that id affecting that account, and \<open>post_balance[0] = amount[0]\<close>:
  the first snapshot of a fresh account is written with a prior balance of zero, and
  the current balance of an account without snapshots is zero. The invariant holds of
  the empty database and is preserved by every call of \<^verbatim>\<open>create_transaction_income\<close>.
\<close>

theorem snapshot_invariant_preserved:
  assumes "ledger_invariant db"
  shows "ledger_invariant empty_database
    \<and> (let db' = fst (create_transaction_income db u a) in
         ledger_invariant db'
         \<and> (\<forall>aid. let xs = snapshots_of db' aid in
               sorted (map ab_mutation_id xs)
               \<and> (\<forall>i<length xs. \<exists>amt.
                     mutation_amount db' aid (ab_mutation_id (xs ! i)) = Some amt
                     \<and> ab_post_balance (xs ! i) =
                         (if i = 0 then 0 else ab_post_balance (xs ! (i - 1))) + amt))
         \<and> (\<forall>aid. snapshots_of db' aid = [] \<longrightarrow> current_balance db' aid = 0)
         \<and> (find_points_account db u = None \<longrightarrow>
              snapshots_of db' (points_account_id db u) =
                [\<lparr>ab_account_id = points_account_id db u, ab_mutation_id = mutation_id_seq db + 1,
                  ab_post_balance = points_amount a\<rparr>]))"
proof -
  let ?db' = "fst (create_transaction_income db u a)"
  have ids: "ids_issued db" using assms by (simp add: ledger_invariant_def)
  have inv: "ledger_invariant ?db'" by (rule create_ledger_invariant [OF assms])
  have chain: "\<forall>aid. let xs = snapshots_of ?db' aid in
               sorted (map ab_mutation_id xs)
               \<and> (\<forall>i<length xs. \<exists>amt.
                     mutation_amount ?db' aid (ab_mutation_id (xs ! i)) = Some amt
                     \<and> ab_post_balance (xs ! i) =
                         (if i = 0 then 0 else ab_post_balance (xs ! (i - 1))) + amt)"
    unfolding Let_def
  proof (intro allI conjI impI)
    fix aid
    show "sorted (map ab_mutation_id (snapshots_of ?db' aid))"
      by (simp add: snapshots_of_def)
  next
    fix aid i
    assume "i < length (snapshots_of ?db' aid)"
    then show "\<exists>amt. mutation_amount ?db' aid (ab_mutation_id (snapshots_of ?db' aid ! i)) = Some amt
       \<and> ab_post_balance (snapshots_of ?db' aid ! i) =
           (if i = 0 then 0 else ab_post_balance (snapshots_of ?db' aid ! (i - 1))) + amt"
      by (rule ledger_invariant_chain [OF inv])
  qed
  have fresh: "find_points_account db u = None \<longrightarrow>
              snapshots_of ?db' (points_account_id db u) =
                [\<lparr>ab_account_id = points_account_id db u, ab_mutation_id = mutation_id_seq db + 1,
                  ab_post_balance = points_amount a\<rparr>]"
    by (simp add: create_snapshots_of [OF ids] fresh_account_no_snapshots [OF ids])
  show ?thesis
    using inv chain fresh
    by (simp add: Let_def ledger_invariant_empty current_balance_no_snapshots)
qed

theorem snapshot_invariant_preserved_witness:
  "ledger_invariant example_database
   \<and> ledger_invariant (fst (create_transaction_income example_database 1 (Points 50)))
   \<and> map ab_post_balance (snapshots_of (fst (create_transaction_income example_database 1 (Points 50))) 1)
       = [100, 60, 110]
   \<and> map (\<lambda>s. mutation_amount (fst (create_transaction_income example_database 1 (Points 50))) 1
                (ab_mutation_id s))
         (snapshots_of (fst (create_transaction_income example_database 1 (Points 50))) 1)
       = [Some 100, Some (- 40), Some 50]
   \<and> snapshots_of example_database 2 = [] \<and> current_balance example_database 2 = 0"
proof -
  have h: "ledger_invariant example_database"
    by code_simp
  have c: "map ab_post_balance (snapshots_of (fst (create_transaction_income example_database 1 (Points 50))) 1)
       = [100, 60, 110]
   \<and> map (\<lambda>s. mutation_amount (fst (create_transaction_income example_database 1 (Points 50))) 1
                (ab_mutation_id s))
         (snapshots_of (fst (create_transaction_income example_database 1 (Points 50))) 1)
       = [Some 100, Some (- 40), Some 50]
   \<and> snapshots_of example_database 2 = [] \<and> current_balance example_database 2 = 0"
    by code_simp
  from snapshot_invariant_preserved [OF h, of 1 "Points 50"] h c show ?thesis
    by (simp add: Let_def)
qed

subsection \<open>Replay equivalence\<close>

text \<open>
  C3. For every account and every sequence of committed income transactions, of any
  length including zero, the current balance of the account equals the fold of its
  history, the sum of the amounts of all its mutations; an account without history
  has the balance 0. Every call of the sequence returns.
\<close>

theorem replay_equivalence:
  assumes "ledger_invariant db"
  shows "\<exists>db'. create_incomes db calls = Inr db'
    \<and> (\<forall>aid. current_balance db' aid = fold_history db' aid)
    \<and> (\<forall>aid. history db' aid = [] \<longrightarrow> current_balance db' aid = 0)"
proof -
  obtain db' where db': "create_incomes db calls = Inr db'" "ledger_invariant db'"
    using create_incomes_invariant [OF assms] by blast
  have "current_balance db' aid = fold_history db' aid" for aid
    using db'(2) by (simp add: ledger_invariant_def replay_all)
  then show ?thesis using db'(1) by (simp add: history_empty_fold)
qed

theorem replay_equivalence_witness:
  "ledger_invariant empty_database
   \<and> (case create_incomes empty_database [(1, Points 100), (1, Points 50), (2, Points 7)] of
         Inl e \<Rightarrow> False
       | Inr db' \<Rightarrow>
           map mut_amount (history db' 1) = [100, 50] \<and> fold_history db' 1 = 150
           \<and> current_balance db' 1 = 150
           \<and> history db' 9 = [] \<and> current_balance db' 9 = 0)"
proof -
  have h: "ledger_invariant empty_database"
    by code_simp
  have c: "(case create_incomes empty_database [(1, Points 100), (1, Points 50), (2, Points 7)] of
         Inl e \<Rightarrow> False
       | Inr db' \<Rightarrow>
           map mut_amount (history db' 1) = [100, 50] \<and> fold_history db' 1 = 150
           \<and> current_balance db' 1 = 150
           \<and> history db' 9 = [] \<and> current_balance db' 9 = 0)"
    by code_simp
  from replay_equivalence [OF h, of "[(1, Points 100), (1, Points 50), (2, Points 7)]"] h c
  show ?thesis by simp
qed

subsection \<open>No validation of the amount\<close>

text \<open>
  C4, as the code has it. An income transaction consists of exactly one mutation, and
  its amount is whatever the caller passed: \<^verbatim>\<open>create_transaction_income\<close> does not look
  at the sign of the amount. For every amount, positive, zero or negative, the call
  returns the id of the new transaction, having written one transaction row, one
  mutation row with that amount and one balance snapshot row.
\<close>

theorem income_any_amount:
  assumes "ids_issued db"
  shows "\<exists>db' transaction_id m s.
     create_transaction_income db u a = (db', Inr transaction_id)
     \<and> transaction_tbl db' = transaction_tbl db @ [\<lparr>tx_id = transaction_id, tx_type = ''income''\<rparr>]
     \<and> filter (\<lambda>m. mut_transaction_id m = transaction_id) (mutation_tbl db') = [m]
     \<and> mut_amount m = points_amount a
     \<and> mutation_tbl db' = mutation_tbl db @ [m]
     \<and> account_balance_tbl db' = account_balance_tbl db @ [s]
     \<and> ab_mutation_id s = mut_id m"
proof -
  let ?db' = "fst (create_transaction_income db u a)"
  let ?m = "\<lparr>mut_id = mutation_id_seq db + 1, mut_transaction_id = transaction_id_seq db + 1,
           mut_debit_account_id = points_account_id db u, mut_amount = points_amount a\<rparr>"
  let ?s = "\<lparr>ab_account_id = points_account_id db u, ab_mutation_id = mutation_id_seq db + 1,
       ab_post_balance = current_balance db (points_account_id db u) + points_amount a\<rparr>"
  have f: "filter (\<lambda>m. mut_transaction_id m = transaction_id_seq db + 1) (mutation_tbl ?db') = [?m]"
    by (rule create_mutations_of_transaction [OF assms])
  show ?thesis
  proof (intro exI [of _ ?db'] exI [of _ "transaction_id_seq db + 1"] exI [of _ ?m]
      exI [of _ ?s] conjI)
    show "create_transaction_income db u a = (?db', Inr (transaction_id_seq db + 1))"
      by (simp add: prod_eq_iff create_succeeds [OF assms])
    show "filter (\<lambda>m. mut_transaction_id m = transaction_id_seq db + 1) (mutation_tbl ?db') = [?m]"
      by (rule f)
  qed (simp_all add: create_tables)
qed

theorem income_any_amount_witness:
  "ids_issued example_database
   \<and> snd (create_transaction_income example_database 1 (Points (- 5))) = Inr 3
   \<and> filter (\<lambda>m. mut_transaction_id m = 3)
        (mutation_tbl (fst (create_transaction_income example_database 1 (Points (- 5)))))
      = [\<lparr>mut_id = 4, mut_transaction_id = 3, mut_debit_account_id = 1, mut_amount = - 5\<rparr>]
   \<and> last (account_balance_tbl (fst (create_transaction_income example_database 1 (Points (- 5)))))
      = \<lparr>ab_account_id = 1, ab_mutation_id = 4, ab_post_balance = 55\<rparr>"
proof -
  have h: "ids_issued example_database"
    by code_simp
  have c: "snd (create_transaction_income example_database 1 (Points (- 5))) = Inr 3
   \<and> filter (\<lambda>m. mut_transaction_id m = 3)
        (mutation_tbl (fst (create_transaction_income example_database 1 (Points (- 5)))))
      = [\<lparr>mut_id = 4, mut_transaction_id = 3, mut_debit_account_id = 1, mut_amount = - 5\<rparr>]
   \<and> last (account_balance_tbl (fst (create_transaction_income example_database 1 (Points (- 5)))))
      = \<lparr>ab_account_id = 1, ab_mutation_id = 4, ab_post_balance = 55\<rparr>"
    by code_simp
  from income_any_amount [OF h, of 1 "Points (- 5)"] h c show ?thesis
    by simp
qed

text \<open>
  C4 with a validation of the amount does not hold: an income of -5 is not refused. The call returns
  the transaction id 1 and the three rows are written.
\<close>

theorem income_nonpositive_counterexample:
  "create_transaction_income empty_database 1 (Points (- 5)) =
     (\<lparr>account_tbl = [\<lparr>acc_id = 1, acc_owner = User 1, acc_currency = ''points''\<rparr>],
       transaction_tbl = [\<lparr>tx_id = 1, tx_type = ''income''\<rparr>],
       mutation_tbl =
         [\<lparr>mut_id = 1, mut_transaction_id = 1, mut_debit_account_id = 1, mut_amount = - 5\<rparr>],
       account_balance_tbl =
         [\<lparr>ab_account_id = 1, ab_mutation_id = 1, ab_post_balance = - 5\<rparr>],
       account_id_seq = 1, transaction_id_seq = 1, mutation_id_seq = 1\<rparr>,
      Inr 1)"
  by code_simp

subsection \<open>The assertion on the new snapshot\<close>

text \<open>
  C5, as the code has it. After the three INSERT statements, the function asserts that
  the \<^verbatim>\<open>post_balance\<close> of the snapshot it has just inserted equals
  \<^verbatim>\<open>amount + account.balance\<close>, the balance that was read when the account was ensured;
  the history of the account is not folded again. A mismatch raises AssertionError, when
  the rows are already written to the open database transaction. When the ledger
  invariant holds beforehand, the assertion passes and the new snapshot equals the fold
  of the account's full mutation history.
\<close>

theorem income_assertion:
  "(let (db', res) = create_transaction_income db u a;
        account = snd (ensure_points_account db u);
        s = last (account_balance_tbl db')
    in account_balance_tbl db' = account_balance_tbl db @ [s]
       \<and> ab_account_id s = ua_id account
       \<and> length (transaction_tbl db') = length (transaction_tbl db) + 1
       \<and> length (mutation_tbl db') = length (mutation_tbl db) + 1
       \<and> res = (if points_add a (ua_balance account) = Points (ab_post_balance s)
                then Inr (transaction_id_seq db + 1) else Inl AssertionError)
       \<and> (ledger_invariant db \<longrightarrow>
            res = Inr (transaction_id_seq db + 1)
            \<and> ab_post_balance s = fold_history db' (ua_id account)))"
proof -
  let ?db' = "fst (create_transaction_income db u a)"
  let ?res = "snd (create_transaction_income db u a)"
  let ?account = "snd (ensure_points_account db u)"
  let ?s = "last (account_balance_tbl ?db')"
  have s: "?s = \<lparr>ab_account_id = points_account_id db u, ab_mutation_id = mutation_id_seq db + 1,
       ab_post_balance = current_balance db (points_account_id db u) + points_amount a\<rparr>"
    by (simp add: create_tables)
  have tbl: "account_balance_tbl ?db' = account_balance_tbl db @ [?s]"
    by (simp add: create_tables)
  have acc: "ab_account_id ?s = ua_id ?account"
    by (simp add: s points_account_id_def)
  have eq: "(points_add a (ua_balance ?account) = Points (ab_post_balance ?s))
      \<longleftrightarrow> ua_balance ?account = Points (current_balance db (points_account_id db u))"
    unfolding s by (cases a; cases "ua_balance ?account") (auto simp: points_add_def)
  have res: "?res = (if points_add a (ua_balance ?account) = Points (ab_post_balance ?s)
                then Inr (transaction_id_seq db + 1) else Inl AssertionError)"
    unfolding eq by (rule create_result)
  have inv: "?res = Inr (transaction_id_seq db + 1)
      \<and> ab_post_balance ?s = fold_history ?db' (ua_id ?account)" if "ledger_invariant db"
  proof -
    have ids: "ids_issued db" and rep: "replay_invariant db"
      using that by (simp_all add: ledger_invariant_def)
    have "fold_history ?db' (points_account_id db u)
        = current_balance db (points_account_id db u) + points_amount a"
      by (simp add: create_fold_history [OF ids] replay_all [OF rep])
    then show ?thesis
      using create_succeeds [OF ids, of u a] by (simp add: s points_account_id_def)
  qed
  show ?thesis
    unfolding Let_def case_prod_unfold
  proof (intro conjI impI)
    show "account_balance_tbl ?db' = account_balance_tbl db @ [?s]" by (rule tbl)
    show "ab_account_id ?s = ua_id ?account" by (rule acc)
    show "length (transaction_tbl ?db') = length (transaction_tbl db) + 1"
      by (simp add: create_tables)
    show "length (mutation_tbl ?db') = length (mutation_tbl db) + 1"
      by (simp add: create_tables)
    show "?res = (if points_add a (ua_balance ?account) = Points (ab_post_balance ?s)
                then Inr (transaction_id_seq db + 1) else Inl AssertionError)"
      by (rule res)
    show "?res = Inr (transaction_id_seq db + 1)" if "ledger_invariant db"
      using inv [OF that] by simp
    show "ab_post_balance ?s = fold_history ?db' (ua_id ?account)" if "ledger_invariant db"
      using inv [OF that] by simp
  qed
qed

theorem income_assertion_witness:
  "ledger_invariant example_database
   \<and> snd (create_transaction_income example_database 1 (Points 50)) = Inr 3
   \<and> ab_post_balance (last (account_balance_tbl (fst (create_transaction_income example_database 1 (Points 50)))))
       = 110
   \<and> fold_history (fst (create_transaction_income example_database 1 (Points 50))) 1 = 110"
proof -
  have h: "ledger_invariant example_database"
    by code_simp
  have c: "snd (create_transaction_income example_database 1 (Points 50)) = Inr 3
   \<and> ab_post_balance (last (account_balance_tbl (fst (create_transaction_income example_database 1 (Points 50)))))
       = 110
   \<and> fold_history (fst (create_transaction_income example_database 1 (Points 50))) 1 = 110"
    by code_simp
  from income_assertion [of example_database 1 "Points 50"] h c show ?thesis
    by simp
qed

text \<open>
  C5 with a recomputed fold does not hold: in a database whose snapshot (7) disagrees with
  the history (5), an income of 10 passes the assertion and returns, although the new
  snapshot (17) is not the fold of the history (15).
\<close>

theorem income_assertion_counterexample:
  "snd (create_transaction_income inconsistent_database 1 (Points 10)) = Inr 2
   \<and> last (account_balance_tbl (fst (create_transaction_income inconsistent_database 1 (Points 10))))
       = \<lparr>ab_account_id = 1, ab_mutation_id = 2, ab_post_balance = 17\<rparr>
   \<and> map mut_amount (history (fst (create_transaction_income inconsistent_database 1 (Points 10))) 1)
       = [5, 10]
   \<and> fold_history (fst (create_transaction_income inconsistent_database 1 (Points 10))) 1 = 15"
  by code_simp

text \<open>
  The assertion can fail: with a stray snapshot for the id that the next account gets,
  the balance of the fresh account (0) and the balance that the INSERT reads (3) differ.
\<close>

lemma assertion_error_reachable:
  "create_transaction_income
     (empty_database\<lparr>account_balance_tbl :=
        [\<lparr>ab_account_id = 1, ab_mutation_id = 1, ab_post_balance = 3\<rparr>]\<rparr>) 1 (Points 10) =
     (\<lparr>account_tbl = [\<lparr>acc_id = 1, acc_owner = User 1, acc_currency = ''points''\<rparr>],
       transaction_tbl = [\<lparr>tx_id = 1, tx_type = ''income''\<rparr>],
       mutation_tbl =
         [\<lparr>mut_id = 1, mut_transaction_id = 1, mut_debit_account_id = 1, mut_amount = 10\<rparr>],
       account_balance_tbl =
         [\<lparr>ab_account_id = 1, ab_mutation_id = 1, ab_post_balance = 3\<rparr>,
          \<lparr>ab_account_id = 1, ab_mutation_id = 1, ab_post_balance = 13\<rparr>],
       account_id_seq = 1, transaction_id_seq = 1, mutation_id_seq = 1\<rparr>,
      Inl AssertionError)"
  by code_simp

subsection \<open>The order of the statements\<close>



subsection \<open>The account is ensured and the transaction id returned\<close>

text \<open>
  C7. \<^verbatim>\<open>create_transaction_income(owner, amount)\<close> first ensures that the owner's points
  account exists: an existing account is used as it is, and for a user without an
  account one account row is created, so the call succeeds in both cases. It then writes
  an income transaction with a single mutation against that account and returns the id
  of the new transaction row, not the id of the mutation.
\<close>

theorem income_returns_transaction_id:
  assumes "ids_issued db"
  shows "\<exists>db' transaction_id acct.
     create_transaction_income db u a = (db', Inr transaction_id)
     \<and> find_points_account db' u = Some acct
     \<and> acc_owner acct = User u \<and> acc_currency acct = ''points''
     \<and> account_tbl db' =
         (case find_points_account db u of
            None \<Rightarrow> account_tbl db @ [acct]
          | Some existing \<Rightarrow> account_tbl db)
     \<and> (\<forall>existing. find_points_account db u = Some existing \<longrightarrow> acct = existing)
     \<and> transaction_id \<notin> tx_id ` set (transaction_tbl db)
     \<and> transaction_tbl db' =
         transaction_tbl db @ [\<lparr>tx_id = transaction_id, tx_type = ''income''\<rparr>]
     \<and> filter (\<lambda>m. mut_transaction_id m = transaction_id) (mutation_tbl db') =
         [\<lparr>mut_id = mutation_id_seq db + 1, mut_transaction_id = transaction_id,
           mut_debit_account_id = acc_id acct, mut_amount = points_amount a\<rparr>]"
proof -
  let ?db' = "fst (create_transaction_income db u a)"
  let ?acct = "case find_points_account db u of
             Some existing \<Rightarrow> existing
           | None \<Rightarrow> \<lparr>acc_id = account_id_seq db + 1, acc_owner = User u, acc_currency = ''points''\<rparr>"
  have f: "find_points_account ?db' u = Some ?acct"
    by (simp add: find_points_account_create ensure_find_eq)
  have o: "acc_owner ?acct = User u \<and> acc_currency ?acct = ''points''"
    by (auto simp: find_points_account_def find_Some_iff split: option.split)
  have i: "acc_id ?acct = points_account_id db u"
    by (simp add: points_account_id_def ensure_points_account_def Let_def split: option.split)
  have t: "account_tbl ?db' =
         (case find_points_account db u of
            None \<Rightarrow> account_tbl db @ [?acct]
          | Some existing \<Rightarrow> account_tbl db)"
    by (simp add: create_account_tbl split: option.split)
  have e: "\<forall>existing. find_points_account db u = Some existing \<longrightarrow> ?acct = existing"
    by simp
  show ?thesis
  proof (intro exI [of _ ?db'] exI [of _ "transaction_id_seq db + 1"] exI [of _ ?acct] conjI)
    show "create_transaction_income db u a = (?db', Inr (transaction_id_seq db + 1))"
      by (simp add: prod_eq_iff create_succeeds [OF assms])
    show "find_points_account ?db' u = Some ?acct" by (rule f)
    show "acc_owner ?acct = User u" "acc_currency ?acct = ''points''" using o by simp_all
    show "account_tbl ?db' =
         (case find_points_account db u of
            None \<Rightarrow> account_tbl db @ [?acct]
          | Some existing \<Rightarrow> account_tbl db)" by (rule t)
    show "\<forall>existing. find_points_account db u = Some existing \<longrightarrow> ?acct = existing" by (rule e)
    show "transaction_id_seq db + 1 \<notin> tx_id ` set (transaction_tbl db)"
      by (rule create_transaction_id_new [OF assms])
    show "transaction_tbl ?db' =
         transaction_tbl db @ [\<lparr>tx_id = transaction_id_seq db + 1, tx_type = ''income''\<rparr>]"
      by (rule create_tables)
    show "filter (\<lambda>m. mut_transaction_id m = transaction_id_seq db + 1) (mutation_tbl ?db') =
         [\<lparr>mut_id = mutation_id_seq db + 1, mut_transaction_id = transaction_id_seq db + 1,
           mut_debit_account_id = acc_id ?acct, mut_amount = points_amount a\<rparr>]"
      unfolding i by (rule create_mutations_of_transaction [OF assms])
  qed
qed

theorem income_returns_transaction_id_witness:
  "ids_issued example_database
   \<and> find_points_account example_database 5 = None
   \<and> create_transaction_income example_database 5 (Points 25) =
       (example_database
          \<lparr>account_tbl := account_tbl example_database @
             [\<lparr>acc_id = 4, acc_owner = User 5, acc_currency = ''points''\<rparr>],
           transaction_tbl := transaction_tbl example_database @
             [\<lparr>tx_id = 3, tx_type = ''income''\<rparr>],
           mutation_tbl := mutation_tbl example_database @
             [\<lparr>mut_id = 4, mut_transaction_id = 3, mut_debit_account_id = 4, mut_amount = 25\<rparr>],
           account_balance_tbl := account_balance_tbl example_database @
             [\<lparr>ab_account_id = 4, ab_mutation_id = 4, ab_post_balance = 25\<rparr>],
           account_id_seq := 4, transaction_id_seq := 3, mutation_id_seq := 4\<rparr>,
        Inr 3)"
proof -
  have h: "ids_issued example_database"
    by code_simp
  have c: "find_points_account example_database 5 = None
   \<and> create_transaction_income example_database 5 (Points 25) =
       (example_database
          \<lparr>account_tbl := account_tbl example_database @
             [\<lparr>acc_id = 4, acc_owner = User 5, acc_currency = ''points''\<rparr>],
           transaction_tbl := transaction_tbl example_database @
             [\<lparr>tx_id = 3, tx_type = ''income''\<rparr>],
           mutation_tbl := mutation_tbl example_database @
             [\<lparr>mut_id = 4, mut_transaction_id = 3, mut_debit_account_id = 4, mut_amount = 25\<rparr>],
           account_balance_tbl := account_balance_tbl example_database @
             [\<lparr>ab_account_id = 4, ab_mutation_id = 4, ab_post_balance = 25\<rparr>],
           account_id_seq := 4, transaction_id_seq := 3, mutation_id_seq := 4\<rparr>,
        Inr 3)"
    by code_simp
  from income_returns_transaction_id [OF h, of 5 "Points 25"] h c show ?thesis
    by simp
qed

subsection \<open>Other accounts are untouched\<close>

text \<open>
  C8. A call of \<^verbatim>\<open>create_transaction_income\<close> for the user u writes no mutation row
  and no balance snapshot row for any account other than u's points account, so the
  current balance of every other account is unchanged.
\<close>

theorem income_frame:
  assumes "find_points_account (fst (create_transaction_income db u a)) u = Some acct"
    and "aid \<noteq> acc_id acct"
  shows "(let db' = fst (create_transaction_income db u a) in
      filter (\<lambda>m. mut_debit_account_id m = aid) (mutation_tbl db') =
        filter (\<lambda>m. mut_debit_account_id m = aid) (mutation_tbl db)
    \<and> filter (\<lambda>s. ab_account_id s = aid) (account_balance_tbl db') =
        filter (\<lambda>s. ab_account_id s = aid) (account_balance_tbl db)
    \<and> (\<forall>m \<in> set (mutation_tbl db') - set (mutation_tbl db). mut_debit_account_id m = acc_id acct)
    \<and> (\<forall>s \<in> set (account_balance_tbl db') - set (account_balance_tbl db).
          ab_account_id s = acc_id acct)
    \<and> current_balance db' aid = current_balance db aid)"
proof -
  have "acc_id acct = points_account_id db u"
    using assms(1) ensure_find [of db u] by (auto simp: find_points_account_create)
  with assms(2) have ne: "aid \<noteq> points_account_id db u" by simp
  have "current_balance (fst (create_transaction_income db u a)) aid = current_balance db aid"
    using ne create_tables(7) [of db u a]
    by (intro current_balance_snoc_other) auto
  then show ?thesis
    using ne \<open>acc_id acct = points_account_id db u\<close>
    by (auto simp: Let_def create_tables)
qed

theorem income_frame_witness:
  "find_points_account (fst (create_transaction_income example_database 1 (Points 50))) 1
     = Some \<lparr>acc_id = 1, acc_owner = User 1, acc_currency = ''points''\<rparr>
   \<and> (3::int) \<noteq> acc_id \<lparr>acc_id = 1, acc_owner = User 1, acc_currency = ''points''\<rparr>
   \<and> current_balance example_database 3 = 40
   \<and> current_balance (fst (create_transaction_income example_database 1 (Points 50))) 3 = 40
   \<and> current_balance example_database 1 = 60
   \<and> current_balance (fst (create_transaction_income example_database 1 (Points 50))) 1 = 110"
proof -
  have h: "find_points_account (fst (create_transaction_income example_database 1 (Points 50))) 1
     = Some \<lparr>acc_id = 1, acc_owner = User 1, acc_currency = ''points''\<rparr>"
    "(3::int) \<noteq> acc_id \<lparr>acc_id = 1, acc_owner = User 1, acc_currency = ''points''\<rparr>"
    by code_simp+
  have c: "current_balance example_database 3 = 40
   \<and> current_balance (fst (create_transaction_income example_database 1 (Points 50))) 3 = 40
   \<and> current_balance example_database 1 = 60
   \<and> current_balance (fst (create_transaction_income example_database 1 (Points 50))) 1 = 110"
    by code_simp
  from income_frame [OF h] h c show ?thesis
    by simp
qed

end
